theory Spec2Isabelle
  imports Complex_Main
begin

section \<open>Reality Filter: the article aggregate, the analysis service and its adapters\<close>

subsection \<open>Go's float64\<close>

text \<open>
  A \<open>float64\<close> is a finite number, one of the two infinities, or NaN. Finite
  arithmetic is taken to be exact (no rounding, no overflow to an infinity) and
  the two zeros are not told apart; the propagation of NaN and of the infinities
  and the comparisons (every comparison with NaN is false) are those of IEEE 754.
\<close>

datatype float64 = NaN | NegInf | Fin real | PosInf

fun fneg :: "float64 \<Rightarrow> float64" where
  "fneg NaN = NaN"
| "fneg NegInf = PosInf"
| "fneg (Fin x) = Fin (- x)"
| "fneg PosInf = NegInf"

fun fadd :: "float64 \<Rightarrow> float64 \<Rightarrow> float64" where
  "fadd NaN _ = NaN"
| "fadd _ NaN = NaN"
| "fadd (Fin x) (Fin y) = Fin (x + y)"
| "fadd PosInf NegInf = NaN"
| "fadd NegInf PosInf = NaN"
| "fadd PosInf _ = PosInf"
| "fadd _ PosInf = PosInf"
| "fadd NegInf _ = NegInf"
| "fadd _ NegInf = NegInf"

definition fsub :: "float64 \<Rightarrow> float64 \<Rightarrow> float64" where
  "fsub a b = fadd a (fneg b)"

fun fsign :: "float64 \<Rightarrow> real" where
  "fsign (Fin x) = sgn x"
| "fsign PosInf = 1"
| "fsign NegInf = - 1"
| "fsign NaN = 0"

fun fmul :: "float64 \<Rightarrow> float64 \<Rightarrow> float64" where
  "fmul NaN _ = NaN"
| "fmul _ NaN = NaN"
| "fmul (Fin x) (Fin y) = Fin (x * y)"
| "fmul a b =
     (if fsign a * fsign b = 0 then NaN
      else if 0 < fsign a * fsign b then PosInf else NegInf)"

fun fdiv :: "float64 \<Rightarrow> float64 \<Rightarrow> float64" where
  "fdiv NaN _ = NaN"
| "fdiv _ NaN = NaN"
| "fdiv (Fin x) (Fin y) =
     (if y \<noteq> 0 then Fin (x / y)
      else if x = 0 then NaN else if 0 < x then PosInf else NegInf)"
| "fdiv (Fin x) _ = Fin 0"
| "fdiv PosInf (Fin y) = (if 0 \<le> y then PosInf else NegInf)"
| "fdiv NegInf (Fin y) = (if 0 \<le> y then NegInf else PosInf)"
| "fdiv _ _ = NaN"

fun flt :: "float64 \<Rightarrow> float64 \<Rightarrow> bool" where
  "flt NaN _ = False"
| "flt _ NaN = False"
| "flt (Fin x) (Fin y) = (x < y)"
| "flt NegInf NegInf = False"
| "flt NegInf _ = True"
| "flt PosInf _ = False"
| "flt (Fin x) NegInf = False"
| "flt (Fin x) PosInf = True"


definition fgt :: "float64 \<Rightarrow> float64 \<Rightarrow> bool" where
  "fgt a b = flt b a"

text \<open>The conversion \<open>float64(numFlags)\<close> of a Go \<open>int\<close>.\<close>

definition float64_of_int :: "int \<Rightarrow> float64" where
  "float64_of_int n = Fin (of_int n)"

subsection \<open>The scoring function (package application)\<close>

text \<open>
  The helpers \<open>abs\<close>, \<open>max\<close> and \<open>min\<close> of the service, with the comparison
  each one makes, and \<open>calculateCredibilityScore\<close>, statement by statement.
\<close>

definition abs_go :: "float64 \<Rightarrow> float64" where
  "abs_go x = (if flt x (Fin 0) then fneg x else x)"

definition max_go :: "float64 \<Rightarrow> float64 \<Rightarrow> float64" where
  "max_go x y = (if fgt x y then x else y)"

definition min_go :: "float64 \<Rightarrow> float64 \<Rightarrow> float64" where
  "min_go x y = (if flt x y then x else y)"

definition calculateCredibilityScore :: "float64 \<Rightarrow> float64 \<Rightarrow> int \<Rightarrow> float64" where
  "calculateCredibilityScore sourceScore sentiment numFlags =
     (let sentimentScore = fsub (Fin 1.0) (fmul (abs_go (fsub sentiment (Fin 0.5))) (Fin 2));
          flagPenalty = max_go (Fin 0.0) (fsub (Fin 1.0) (fdiv (float64_of_int numFlags) (Fin 5.0)));
          score = fadd (fadd (fmul sourceScore (Fin 0.4)) (fmul sentimentScore (Fin 0.2)))
                       (fmul flagPenalty (Fin 0.4))
      in max_go (Fin 0.0) (min_go (Fin 1.0) score))"




subsection \<open>The domain model (package domain)\<close>

text \<open>
  \<open>FlagType\<close>, \<open>EntityType\<close> and \<open>ArticleStatus\<close> are Go string types with named
  constants; any string is a value of them. A \<open>time.Time\<close> is a natural number
  whose zero is the zero time; a UUID is given by its canonical text.
\<close>

type_synonym FlagType = string
type_synonym EntityType = string
type_synonym ArticleStatus = string
type_synonym Time = nat
type_synonym UUID = string

definition EntityTypePerson :: EntityType where "EntityTypePerson = ''PERSON''"
definition EntityTypePlace :: EntityType where "EntityTypePlace = ''PLACE''"
definition EntityTypeDate :: EntityType where "EntityTypeDate = ''DATE''"
definition EntityTypeOrg :: EntityType where "EntityTypeOrg = ''ORGANIZATION''"
definition EntityTypeProduct :: EntityType where "EntityTypeProduct = ''PRODUCT''"

definition FlagTypeClickbait :: FlagType where "FlagTypeClickbait = ''CLICKBAIT''"
definition FlagTypeMisleading :: FlagType where "FlagTypeMisleading = ''MISLEADING''"
definition FlagTypeBiased :: FlagType where "FlagTypeBiased = ''BIASED''"
definition FlagTypeUnverified :: FlagType where "FlagTypeUnverified = ''UNVERIFIED''"
definition FlagTypeFactualError :: FlagType where "FlagTypeFactualError = ''FACTUAL_ERROR''"
definition FlagTypeHateSpeech :: FlagType where "FlagTypeHateSpeech = ''HATE_SPEECH''"
definition FlagTypeSpam :: FlagType where "FlagTypeSpam = ''SPAM''"

definition ArticleStatusPending :: ArticleStatus where "ArticleStatusPending = ''PENDING''"
definition ArticleStatusAnalyzed :: ArticleStatus where "ArticleStatusAnalyzed = ''ANALYZED''"
definition ArticleStatusFlagged :: ArticleStatus where "ArticleStatusFlagged = ''FLAGGED''"
definition ArticleStatusRejected :: ArticleStatus where "ArticleStatusRejected = ''REJECTED''"

record Entity =
  Entity_Type :: EntityType
  Value :: string

record Flag =
  Type :: FlagType
  Confidence :: float64
  Details :: string
  DetectedAt :: Time
  DetectedBy :: string

record ArticleMetadata =
  Entities :: "Entity list"
  Sentiment :: float64
  Language :: string
  WordCount :: int
  ReadingTime :: int

record Article =
  ID :: UUID
  Title :: string
  Content :: string
  Source :: string
  Author :: string
  Tags :: "string list"
  CreatedAt :: Time
  UpdatedAt :: Time
  Score :: float64
  Flags :: "Flag list"
  Status :: ArticleStatus
  MetaData :: ArticleMetadata

text \<open>
  The wall clock: \<open>time.Now()\<close> returns the next reading and advances the count
  of readings taken.
\<close>

record clock =
  now_at :: "nat \<Rightarrow> Time"
  ticks :: nat

definition time_Now :: "clock \<Rightarrow> Time \<times> clock" where
  "time_Now c = (now_at c (ticks c), c\<lparr>ticks := Suc (ticks c)\<rparr>)"

definition IsZero :: "Time \<Rightarrow> bool" where
  "IsZero t = (t = 0)"

text \<open>\<open>NewArticle\<close>; the fresh identifier of \<open>uuid.New()\<close> is a parameter.\<close>

definition NewArticle ::
  "UUID \<Rightarrow> string \<Rightarrow> string \<Rightarrow> string \<Rightarrow> string \<Rightarrow> string list \<Rightarrow> clock \<Rightarrow> Article \<times> clock" where
  "NewArticle new_id title content source author tags c =
     (let (now, c1) = time_Now c
      in (\<lparr>ID = new_id, Title = title, Content = content, Source = source, Author = author,
           Tags = tags, CreatedAt = now, UpdatedAt = now, Score = Fin 0, Flags = [],
           Status = ArticleStatusPending,
           MetaData = \<lparr>Entities = [], Sentiment = Fin 0, Language = [], WordCount = 0,
                        ReadingTime = 0\<rparr>\<rparr>, c1))"

text \<open>The four mutators of the aggregate. Each returns the article as the call leaves it.\<close>

definition AddFlag ::
  "Article \<Rightarrow> FlagType \<Rightarrow> float64 \<Rightarrow> string \<Rightarrow> string \<Rightarrow> clock \<Rightarrow> Article \<times> clock" where
  "AddFlag a flagType confidence details detectedBy c =
     (let (t1, c1) = time_Now c;
          flag = \<lparr>Type = flagType, Confidence = confidence, Details = details,
                  DetectedAt = t1, DetectedBy = detectedBy\<rparr>;
          a1 = a\<lparr>Flags := Flags a @ [flag]\<rparr>;
          a2 = (if length (Flags a1) > 0 then a1\<lparr>Status := ArticleStatusFlagged\<rparr> else a1);
          (t2, c2) = time_Now c1
      in (a2\<lparr>UpdatedAt := t2\<rparr>, c2))"

definition UpdateScore :: "Article \<Rightarrow> float64 \<Rightarrow> clock \<Rightarrow> Article \<times> clock" where
  "UpdateScore a score c =
     (let (now, c1) = time_Now c in (a\<lparr>Score := score, UpdatedAt := now\<rparr>, c1))"

definition UpdateStatus :: "Article \<Rightarrow> ArticleStatus \<Rightarrow> clock \<Rightarrow> Article \<times> clock" where
  "UpdateStatus a status c =
     (let (now, c1) = time_Now c in (a\<lparr>Status := status, UpdatedAt := now\<rparr>, c1))"

definition UpdateMetadata :: "Article \<Rightarrow> ArticleMetadata \<Rightarrow> clock \<Rightarrow> Article \<times> clock" where
  "UpdateMetadata a metadata c =
     (let (now, c1) = time_Now c in (a\<lparr>MetaData := metadata, UpdatedAt := now\<rparr>, c1))"

subsection \<open>Errors, the outside world and the secondary ports\<close>

text \<open>
  Go errors: the sentinels \<open>mongo.ErrNoDocuments\<close> and \<open>redis.Nil\<close>, any other failure
  of a driver or a service, and \<open>fmt.Errorf("...: %w", err)\<close>, which wraps an error under
  a message.
\<close>

datatype error = ErrNoDocuments | RedisNil | Failure string | Wrapped string error

text \<open>A call either returns or panics (a nil pointer is dereferenced).\<close>

datatype 'a outcome = Returns 'a | Panics

text \<open>The calls the service makes through its secondary ports, as they are recorded.\<close>

datatype call =
    CallAnalyzeSentiment | CallExtractEntities | CallDetectBias
  | CallCheckFacts | CallGetSourceReputation
  | CallRepoSave | CallRepoFindByID | CallRepoUpdate
  | CallCacheSet | CallCacheGet
  | CallPublishAnalyzed | CallPublishFlagged

text \<open>
  The value of \<open>_id\<close> in a filter: \<open>Save\<close> and \<open>Update\<close> filter on the article's UUID,
  \<open>FindByID\<close> filters on the string it is given.
\<close>

datatype bson_id = BinaryId UUID | StringId string

text \<open>
  The state outside the service: the clock, the \<open>articles\<close> collection, the Redis
  keys with the JSON stored under them (the expiry of a key is not modelled), the lines
  \<open>fmt.Printf\<close> wrote (the format less its newline, and the error), and the port calls
  made so far.
\<close>

record world =
  clk :: clock
  store :: "bson_id \<rightharpoonup> Article"
  cache :: "string \<rightharpoonup> string"
  stdout :: "(string \<times> error) list"
  trace :: "call list"

text \<open>
  What the code does not decide: the answers of the content analyzer, the fact checker
  and the event publisher (interfaces; \<open>Inl\<close> is a non-nil error), the JSON codec, and
  whether the MongoDB or the Redis driver fails on the call made at a given position of
  the trace.
\<close>

record deps =
  AnalyzeSentiment :: "string \<Rightarrow> error + float64"
  ExtractEntities :: "string \<Rightarrow> error + Entity list"
  DetectBias :: "string \<Rightarrow> error + Flag list"
  CheckFacts :: "Article \<Rightarrow> error + Flag list"
  GetSourceReputation :: "string \<Rightarrow> error + float64"
  PublishArticleAnalyzed :: "Article \<Rightarrow> error option"
  PublishArticleFlagged :: "Article \<Rightarrow> error option"
  json_Marshal :: "Article \<Rightarrow> error + string"
  json_Unmarshal :: "string \<Rightarrow> error + Article"
  mongo_fault :: "nat \<Rightarrow> error option"
  redis_fault :: "nat \<Rightarrow> error option"

definition called :: "call \<Rightarrow> world \<Rightarrow> world" where
  "called c w = w\<lparr>trace := trace w @ [c]\<rparr>"

definition Printf :: "string \<Rightarrow> error \<Rightarrow> world \<Rightarrow> world" where
  "Printf format err w = w\<lparr>stdout := stdout w @ [(format, err)]\<rparr>"

text \<open>The driver does not fail on the port call about to be made.\<close>

definition driver_ok :: "(nat \<Rightarrow> error option) \<Rightarrow> world \<Rightarrow> bool" where
  "driver_ok fault w = (fault (Suc (length (trace w))) = None)"

subsection \<open>The MongoDB repository (package mongodb)\<close>

text \<open>
  \<open>collection.UpdateOne(ctx, {_id: key}, {$set: article}, opts)\<close>: the driver's error,
  or the matched count; the document under the key takes the article's fields, and
  with upsert it is created when absent.
\<close>

definition UpdateOne ::
  "deps \<Rightarrow> bson_id \<Rightarrow> Article \<Rightarrow> bool \<Rightarrow> world \<Rightarrow> (error + nat) \<times> world" where
  "UpdateOne d key doc upsert w =
     (case mongo_fault d (length (trace w)) of
        Some err \<Rightarrow> (Inl err, w)
      | None \<Rightarrow>
          (case store w key of
             Some old \<Rightarrow> (Inr 1, w\<lparr>store := (store w)(key \<mapsto> doc)\<rparr>)
           | None \<Rightarrow>
               if upsert then (Inr 0, w\<lparr>store := (store w)(key \<mapsto> doc)\<rparr>)
               else (Inr 0, w)))"

text \<open>\<open>collection.FindOne(ctx, {_id: key}).Decode(&article)\<close>.\<close>

definition FindOne_Decode :: "deps \<Rightarrow> bson_id \<Rightarrow> world \<Rightarrow> error + Article" where
  "FindOne_Decode d key w =
     (case mongo_fault d (length (trace w)) of
        Some err \<Rightarrow> Inl err
      | None \<Rightarrow> (case store w key of None \<Rightarrow> Inl ErrNoDocuments | Some doc \<Rightarrow> Inr doc))"

definition ArticleRepository_Save ::
  "deps \<Rightarrow> Article \<Rightarrow> world \<Rightarrow> error option \<times> Article \<times> world" where
  "ArticleRepository_Save d article w0 =
     (let w = called CallRepoSave w0;
          (now, c1) = time_Now (clk w);
          a1 = article\<lparr>UpdatedAt := now\<rparr>;
          a2 = (if IsZero (CreatedAt a1) then a1\<lparr>CreatedAt := UpdatedAt a1\<rparr> else a1);
          (res, w1) = UpdateOne d (BinaryId (ID a2)) a2 True (w\<lparr>clk := c1\<rparr>)
      in ((case res of Inl err \<Rightarrow> Some err | Inr matched \<Rightarrow> None), a2, w1))"

definition ArticleRepository_FindByID ::
  "deps \<Rightarrow> string \<Rightarrow> world \<Rightarrow> (Article option \<times> error option) \<times> world" where
  "ArticleRepository_FindByID d ident w0 =
     (let w = called CallRepoFindByID w0
      in case FindOne_Decode d (StringId ident) w of
           Inl err \<Rightarrow> if err = ErrNoDocuments then ((None, None), w) else ((None, Some err), w)
         | Inr article \<Rightarrow> ((Some article, None), w))"

definition ArticleRepository_Update ::
  "deps \<Rightarrow> Article \<Rightarrow> world \<Rightarrow> error option \<times> Article \<times> world" where
  "ArticleRepository_Update d article w0 =
     (let w = called CallRepoUpdate w0;
          (now, c1) = time_Now (clk w);
          a1 = article\<lparr>UpdatedAt := now\<rparr>;
          (res, w1) = UpdateOne d (BinaryId (ID a1)) a1 False (w\<lparr>clk := c1\<rparr>)
      in ((case res of
             Inl err \<Rightarrow> Some err
           | Inr matched \<Rightarrow> if matched = 0 then Some ErrNoDocuments else None), a1, w1))"

subsection \<open>The Redis cache (package redis)\<close>

definition UUID_String :: "UUID \<Rightarrow> string" where
  "UUID_String u = u"

definition getKey :: "string \<Rightarrow> string" where
  "getKey ident = ''article:'' @ ident"

text \<open>\<open>client.Set(ctx, key, data, ttl).Err()\<close> and \<open>client.Get(ctx, key).Bytes()\<close>.\<close>

definition redis_Set :: "deps \<Rightarrow> string \<Rightarrow> string \<Rightarrow> world \<Rightarrow> error option \<times> world" where
  "redis_Set d key data w =
     (case redis_fault d (length (trace w)) of
        Some err \<Rightarrow> (Some err, w)
      | None \<Rightarrow> (None, w\<lparr>cache := (cache w)(key \<mapsto> data)\<rparr>))"

definition redis_Get :: "deps \<Rightarrow> string \<Rightarrow> world \<Rightarrow> error + string" where
  "redis_Get d key w =
     (case redis_fault d (length (trace w)) of
        Some err \<Rightarrow> Inl err
      | None \<Rightarrow> (case cache w key of None \<Rightarrow> Inl RedisNil | Some data \<Rightarrow> Inr data))"

text \<open>
  \<open>Set\<close> takes a pointer: with nil, \<open>json.Marshal\<close> gives \<open>null\<close> without an error
  and \<open>article.ID\<close> then panics.
\<close>

definition ArticleCache_Set ::
  "deps \<Rightarrow> Article option \<Rightarrow> world \<Rightarrow> error option outcome \<times> world" where
  "ArticleCache_Set d article w0 =
     (let w = called CallCacheSet w0
      in case article of
           None \<Rightarrow> (Panics, w)
         | Some a \<Rightarrow>
             (case json_Marshal d a of
                Inl err \<Rightarrow> (Returns (Some err), w)
              | Inr data \<Rightarrow>
                  (let key = getKey (UUID_String (ID a));
                       (err, w1) = redis_Set d key data w
                   in (Returns err, w1))))"

definition ArticleCache_Get ::
  "deps \<Rightarrow> string \<Rightarrow> world \<Rightarrow> (Article option \<times> error option) \<times> world" where
  "ArticleCache_Get d ident w0 =
     (let w = called CallCacheGet w0;
          key = getKey ident
      in case redis_Get d key w of
           Inl err \<Rightarrow> if err = RedisNil then ((None, None), w) else ((None, Some err), w)
         | Inr data \<Rightarrow>
             (case json_Unmarshal d data of
                Inl err \<Rightarrow> ((None, Some err), w)
              | Inr article \<Rightarrow> ((Some article, None), w)))"

subsection \<open>The analysis service (package application)\<close>

text \<open>The two loops \<open>for _, flag := range flags { article.AddFlag(..., detectedBy) }\<close>.\<close>

fun add_flags :: "Flag list \<Rightarrow> string \<Rightarrow> Article \<Rightarrow> clock \<Rightarrow> Article \<times> clock" where
  "add_flags [] detectedBy a c = (a, c)"
| "add_flags (flag # flags) detectedBy a c =
     (let (a1, c1) = AddFlag a (Type flag) (Confidence flag) (Details flag) detectedBy c
      in add_flags flags detectedBy a1 c1)"

text \<open>
  \<open>AnalyzeArticle\<close> after its five upstream calls have succeeded, first part: the
  metadata, the flags, the score and the status are written into the article
  (\<open>len\<close> of a Go string counts bytes).
\<close>

definition apply_results ::
  "Article \<Rightarrow> float64 \<Rightarrow> Entity list \<Rightarrow> Flag list \<Rightarrow> Flag list \<Rightarrow> float64 \<Rightarrow> clock
     \<Rightarrow> Article \<times> clock" where
  "apply_results article sentiment entities biasFlags factFlags sourceScore c =
     (let (a1, c1) = UpdateMetadata article
            \<lparr>Entities = entities, Sentiment = sentiment, Language = ''en'',
             WordCount = int (length (Content article)),
             ReadingTime = int (length (Content article)) div 200\<rparr> c;
          (a2, c2) = add_flags biasFlags ''bias_detector'' a1 c1;
          (a3, c3) = add_flags factFlags ''fact_checker'' a2 c2;
          credibilityScore = calculateCredibilityScore sourceScore sentiment (int (length (Flags a3)));
          (a4, c4) = UpdateScore a3 credibilityScore c3
      in if length (Flags a4) > 0 then UpdateStatus a4 ArticleStatusFlagged c4
         else UpdateStatus a4 ArticleStatusAnalyzed c4)"

text \<open>
  Second part: the repository write, whose error is returned, then the cache and the
  events, whose errors are printed.
\<close>

definition persist_and_publish ::
  "deps \<Rightarrow> Article \<Rightarrow> world \<Rightarrow> error option outcome \<times> Article \<times> world" where
  "persist_and_publish d article w =
     (let (uerr, a1, w1) = ArticleRepository_Update d article w
      in case uerr of
           Some err \<Rightarrow> (Returns (Some (Wrapped ''failed to update article'' err)), a1, w1)
         | None \<Rightarrow>
             (case ArticleCache_Set d (Some a1) w1 of
                (Panics, w2) \<Rightarrow> (Panics, a1, w2)
              | (Returns cerr, w2) \<Rightarrow>
                  (let w3 = (case cerr of
                               Some err \<Rightarrow> Printf ''failed to update cache: %v'' err w2
                             | None \<Rightarrow> w2);
                       w4 = called CallPublishAnalyzed w3;
                       w5 = (case PublishArticleAnalyzed d a1 of
                               Some err \<Rightarrow> Printf ''failed to publish article analyzed event: %v'' err w4
                             | None \<Rightarrow> w4);
                       w6 = (if Status a1 = ArticleStatusFlagged
                             then (let w5' = called CallPublishFlagged w5
                                   in case PublishArticleFlagged d a1 of
                                        Some err \<Rightarrow> Printf ''failed to publish article flagged event: %v'' err w5'
                                      | None \<Rightarrow> w5')
                             else w5)
                   in (Returns None, a1, w6))))"

text \<open>
  \<open>AnalyzeArticle\<close> on a non-nil article: the error (nil is \<open>None\<close>), the article as the
  call leaves it, and the world.
\<close>

definition AnalyzeArticle ::
  "deps \<Rightarrow> Article \<Rightarrow> world \<Rightarrow> error option outcome \<times> Article \<times> world" where
  "AnalyzeArticle d article w0 =
     (let w1 = called CallAnalyzeSentiment w0 in
      case AnalyzeSentiment d (Content article) of
        Inl err \<Rightarrow> (Returns (Some (Wrapped ''failed to analyze sentiment'' err)), article, w1)
      | Inr sentiment \<Rightarrow>
     (let w2 = called CallExtractEntities w1 in
      case ExtractEntities d (Content article) of
        Inl err \<Rightarrow> (Returns (Some (Wrapped ''failed to extract entities'' err)), article, w2)
      | Inr entities \<Rightarrow>
     (let w3 = called CallDetectBias w2 in
      case DetectBias d (Content article) of
        Inl err \<Rightarrow> (Returns (Some (Wrapped ''failed to detect bias'' err)), article, w3)
      | Inr biasFlags \<Rightarrow>
     (let w4 = called CallCheckFacts w3 in
      case CheckFacts d article of
        Inl err \<Rightarrow> (Returns (Some (Wrapped ''failed to check facts'' err)), article, w4)
      | Inr factFlags \<Rightarrow>
     (let w5 = called CallGetSourceReputation w4 in
      case GetSourceReputation d (Source article) of
        Inl err \<Rightarrow> (Returns (Some (Wrapped ''failed to get source reputation'' err)), article, w5)
      | Inr sourceScore \<Rightarrow>
     (let (a1, c1) = apply_results article sentiment entities biasFlags factFlags sourceScore (clk w5)
      in persist_and_publish d a1 (w5\<lparr>clk := c1\<rparr>)))))))"

text \<open>The five upstream calls in their order, and: one of them returns an error.\<close>

definition upstream_calls :: "call list" where
  "upstream_calls =
     [CallAnalyzeSentiment, CallExtractEntities, CallDetectBias, CallCheckFacts,
      CallGetSourceReputation]"

definition upstream_fails :: "deps \<Rightarrow> Article \<Rightarrow> bool" where
  "upstream_fails d a =
     (isl (AnalyzeSentiment d (Content a)) \<or> isl (ExtractEntities d (Content a))
      \<or> isl (DetectBias d (Content a)) \<or> isl (CheckFacts d a)
      \<or> isl (GetSourceReputation d (Source a)))"

definition GetAnalysisResult ::
  "deps \<Rightarrow> string \<Rightarrow> world \<Rightarrow> (Article option \<times> error option) outcome \<times> world" where
  "GetAnalysisResult d articleID w0 =
     (case ArticleCache_Get d articleID w0 of
        ((article, None), w1) \<Rightarrow> (Returns (article, None), w1)
      | ((article, Some cache_err), w1) \<Rightarrow>
          (case ArticleRepository_FindByID d articleID w1 of
             ((found, Some err), w2) \<Rightarrow>
               (Returns (None, Some (Wrapped ''failed to find article'' err)), w2)
           | ((found, None), w2) \<Rightarrow>
               (case ArticleCache_Set d found w2 of
                  (Panics, w3) \<Rightarrow> (Panics, w3)
                | (Returns cerr, w3) \<Rightarrow>
                    (Returns (found, None),
                     (case cerr of
                        Some err \<Rightarrow> Printf ''failed to update cache: %v'' err w3
                      | None \<Rightarrow> w3)))))"

definition CreateArticle :: "deps \<Rightarrow> Article \<Rightarrow> world \<Rightarrow> error option \<times> Article \<times> world" where
  "CreateArticle d article w = ArticleRepository_Save d article w"

definition GetArticle ::
  "deps \<Rightarrow> string \<Rightarrow> world \<Rightarrow> (Article option \<times> error option) \<times> world" where
  "GetArticle d ident w = ArticleRepository_FindByID d ident w"


subsection \<open>The HTTP handler (package handler)\<close>

text \<open>
  The response of \<open>c.JSON(code, obj)\<close>: the status code and the JSON body, which is
  \<open>null\<close> for a nil article pointer.
\<close>

datatype json = JSONNull | JSONArticle Article | JSONError string

record Response =
  status_code :: nat
  body :: json

definition StatusOK :: nat where "StatusOK = 200"
definition StatusNotFound :: nat where "StatusNotFound = 404"

definition JSON_of_article :: "Article option \<Rightarrow> json" where
  "JSON_of_article p = (case p of None \<Rightarrow> JSONNull | Some a \<Rightarrow> JSONArticle a)"

definition Handler_GetArticle :: "deps \<Rightarrow> string \<Rightarrow> world \<Rightarrow> Response \<times> world" where
  "Handler_GetArticle d articleID w =
     (case GetArticle d articleID w of
        ((article, Some err), w1) \<Rightarrow>
          (\<lparr>status_code = StatusNotFound, body = JSONError ''Article not found''\<rparr>, w1)
      | ((article, None), w1) \<Rightarrow>
          (\<lparr>status_code = StatusOK, body = JSON_of_article article\<rparr>, w1))"

subsection \<open>Sequences of operations on an article\<close>




text \<open>An article with a flag has status FLAGGED.\<close>

definition flagged_ok :: "Article \<Rightarrow> bool" where
  "flagged_ok a = (Flags a = [] \<or> Status a = ArticleStatusFlagged)"

text \<open>The same of every stored document, and of these and the article in memory.\<close>

definition docs_ok :: "world \<Rightarrow> bool" where
  "docs_ok w = (\<forall>doc \<in> ran (store w). flagged_ok doc)"




text \<open>The calls to the content analyzer and the fact checker.\<close>

fun is_analysis_call :: "call \<Rightarrow> bool" where
  "is_analysis_call CallAnalyzeSentiment = True"
| "is_analysis_call CallExtractEntities = True"
| "is_analysis_call CallDetectBias = True"
| "is_analysis_call CallCheckFacts = True"
| "is_analysis_call CallGetSourceReputation = True"
| "is_analysis_call c = False"

subsection \<open>Concrete inputs\<close>

text \<open>
  The mock analyzer, fact checker and publisher that \<open>main\<close> wires in, with drivers
  that do not fail; an article, and a world whose collection holds it.
\<close>

definition mock_deps :: deps where
  "mock_deps =
     \<lparr>AnalyzeSentiment = (\<lambda>text. Inr (Fin 0.5)),
      ExtractEntities = (\<lambda>text. Inr []),
      DetectBias = (\<lambda>text. Inr []),
      CheckFacts = (\<lambda>article. Inr []),
      GetSourceReputation = (\<lambda>source. Inr (Fin 0.8)),
      PublishArticleAnalyzed = (\<lambda>article. None),
      PublishArticleFlagged = (\<lambda>article. None),
      json_Marshal = (\<lambda>article. Inr ''{}''),
      json_Unmarshal = (\<lambda>data. Inl (Failure ''unexpected end of JSON input'')),
      mongo_fault = (\<lambda>k. None),
      redis_fault = (\<lambda>k. None)\<rparr>"

definition sample_flag :: Flag where
  "sample_flag = \<lparr>Type = FlagTypeSpam, Confidence = Fin 0.9, Details = ''spam'',
                  DetectedAt = 0, DetectedBy = []\<rparr>"

text \<open>
  A bias detector that reports a flag, with a cache and a publisher that fail; and a
  fact checker that is unavailable.
\<close>

definition failing_deps :: deps where
  "failing_deps =
     mock_deps\<lparr>DetectBias := (\<lambda>text. Inr [sample_flag]),
               PublishArticleAnalyzed := (\<lambda>article. Some (Failure ''broker down'')),
               PublishArticleFlagged := (\<lambda>article. Some (Failure ''broker down'')),
               redis_fault := (\<lambda>k. Some (Failure ''connection refused''))\<rparr>"

definition unchecked_deps :: deps where
  "unchecked_deps = mock_deps\<lparr>CheckFacts := (\<lambda>article. Inl (Failure ''service unavailable''))\<rparr>"

definition sample_clock :: clock where
  "sample_clock = \<lparr>now_at = (\<lambda>k. 1000 + k), ticks = 0\<rparr>"

definition sample_article :: Article where
  "sample_article = fst (NewArticle ''a1'' ''Title'' ''Body'' ''example.org'' ''Ann'' [] sample_clock)"

definition sample_world :: world where
  "sample_world =
     \<lparr>clk = snd (NewArticle ''a1'' ''Title'' ''Body'' ''example.org'' ''Ann'' [] sample_clock),
      store = [BinaryId ''a1'' \<mapsto> sample_article],
      cache = Map.empty, stdout = [], trace = []\<rparr>"

section \<open>Properties of the scoring function\<close>

lemma fsub_Fin [simp]: "fsub (Fin x) (Fin y) = Fin (x - y)"
  by (simp add: fsub_def)

lemma abs_go_Fin [simp]: "abs_go (Fin x) = Fin \<bar>x\<bar>"
  by (simp add: abs_go_def)

lemma max_go_Fin [simp]: "max_go (Fin x) (Fin y) = Fin (max x y)"
  by (simp add: max_go_def fgt_def max_def)

lemma min_go_Fin [simp]: "min_go (Fin x) (Fin y) = Fin (min x y)"
  by (simp add: min_go_def min_def)















section \<open>Timestamps\<close>

text \<open>
  Claim C6. Every operation that mutates an article (\<open>AddFlag\<close>, \<open>UpdateScore\<close>,
  \<open>UpdateStatus\<close>, \<open>UpdateMetadata\<close>, and the repository's \<open>Save\<close> and \<open>Update\<close>) sets
  the article's \<open>UpdatedAt\<close> to the time of the mutation: the reading of \<open>time.Now()\<close>
  it takes (for \<open>AddFlag\<close> its second one, the first being the flag's \<open>DetectedAt\<close>).
\<close>

theorem mutators_set_UpdatedAt:
  "UpdatedAt (fst (AddFlag a flagType confidence details detectedBy c)) = fst (time_Now (snd (time_Now c)))
   \<and> UpdatedAt (fst (UpdateScore a score c)) = fst (time_Now c)
   \<and> UpdatedAt (fst (UpdateStatus a status c)) = fst (time_Now c)
   \<and> UpdatedAt (fst (UpdateMetadata a metadata c)) = fst (time_Now c)
   \<and> UpdatedAt (fst (snd (ArticleRepository_Save d a w))) = fst (time_Now (clk w))
   \<and> UpdatedAt (fst (snd (ArticleRepository_Update d a w))) = fst (time_Now (clk w))"
  by (simp add: AddFlag_def UpdateScore_def UpdateStatus_def UpdateMetadata_def
      ArticleRepository_Save_def ArticleRepository_Update_def called_def Let_def
      split: prod.splits)

section \<open>Lookups that find nothing\<close>

lemma FindByID_no_document:
  assumes "store w (StringId ident) = None" and "driver_ok (mongo_fault d) w"
  shows "ArticleRepository_FindByID d ident w = ((None, None), called CallRepoFindByID w)"
  using assms
  by (simp add: ArticleRepository_FindByID_def FindOne_Decode_def called_def driver_ok_def Let_def)

text \<open>
  Claim C10. For an identifier with no document in the store, the MongoDB \<open>FindByID\<close>
  returns a nil article with a nil error, not an error, and so the \<open>GetArticle\<close> handler
  answers 200 with the body \<open>null\<close> for an unknown article, not 404.
\<close>

theorem GetArticle_unknown_id:
  assumes "store w (StringId ident) = None" and "driver_ok (mongo_fault d) w"
  shows "fst (ArticleRepository_FindByID d ident w) = (None, None)
         \<and> fst (Handler_GetArticle d ident w) = \<lparr>status_code = 200, body = JSONNull\<rparr>"
  using FindByID_no_document [OF assms]
  by (simp add: Handler_GetArticle_def GetArticle_def StatusOK_def JSON_of_article_def)

theorem GetArticle_unknown_id_witness:
  "store sample_world (StringId ''unknown'') = None
   \<and> driver_ok (mongo_fault mock_deps) sample_world
   \<and> fst (ArticleRepository_FindByID mock_deps ''unknown'' sample_world) = (None, None)
   \<and> fst (Handler_GetArticle mock_deps ''unknown'' sample_world) = \<lparr>status_code = 200, body = JSONNull\<rparr>"
proof -
  have h1: "store sample_world (StringId ''unknown'') = None"
    by (simp add: sample_world_def)
  have h2: "driver_ok (mongo_fault mock_deps) sample_world"
    by (simp add: driver_ok_def mock_deps_def)
  from GetArticle_unknown_id [OF h1 h2] h1 h2 show ?thesis by simp
qed

lemma Get_miss:
  assumes "cache w (getKey ident) = None" and "driver_ok (redis_fault d) w"
  shows "ArticleCache_Get d ident w = ((None, None), called CallCacheGet w)"
  using assms
  by (simp add: ArticleCache_Get_def redis_Get_def called_def driver_ok_def Let_def)

text \<open>
  Claim C8. When Redis holds no entry for the requested identifier, the cache's \<open>Get\<close>
  returns a nil article with a nil error, and so \<open>GetAnalysisResult\<close> returns
  \<open>(nil, nil)\<close> on a cache miss; the one port call it makes is the cache's \<open>Get\<close>: the
  repository is not consulted.
\<close>

theorem GetAnalysisResult_cache_miss:
  assumes "cache w (getKey ident) = None" and "driver_ok (redis_fault d) w"
  shows "fst (ArticleCache_Get d ident w) = (None, None)
         \<and> fst (GetAnalysisResult d ident w) = Returns (None, None)
         \<and> trace (snd (GetAnalysisResult d ident w)) = trace w @ [CallCacheGet]
         \<and> store (snd (GetAnalysisResult d ident w)) = store w"
  using Get_miss [OF assms]
  by (simp add: GetAnalysisResult_def called_def)

theorem GetAnalysisResult_cache_miss_witness:
  "cache sample_world (getKey ''a1'') = None
   \<and> driver_ok (redis_fault mock_deps) sample_world
   \<and> store sample_world (BinaryId ''a1'') = Some sample_article
   \<and> fst (ArticleCache_Get mock_deps ''a1'' sample_world) = (None, None)
   \<and> fst (GetAnalysisResult mock_deps ''a1'' sample_world) = Returns (None, None)
   \<and> trace (snd (GetAnalysisResult mock_deps ''a1'' sample_world)) = trace sample_world @ [CallCacheGet]
   \<and> store (snd (GetAnalysisResult mock_deps ''a1'' sample_world)) = store sample_world"
proof -
  have h1: "cache sample_world (getKey ''a1'') = None"
    by (simp add: sample_world_def)
  have h2: "driver_ok (redis_fault mock_deps) sample_world"
    by (simp add: driver_ok_def mock_deps_def)
  have h3: "store sample_world (BinaryId ''a1'') = Some sample_article"
    by (simp add: sample_world_def)
  from GetAnalysisResult_cache_miss [OF h1 h2] h1 h2 h3 show ?thesis by simp
qed

section \<open>AnalyzeArticle\<close>

lemmas eval_defs = sample_article_def sample_world_def sample_clock_def sample_flag_def
  mock_deps_def NewArticle_def time_Now_def
  AnalyzeArticle_def apply_results_def persist_and_publish_def
  UpdateMetadata_def AddFlag_def UpdateScore_def UpdateStatus_def
  ArticleRepository_Update_def UpdateOne_def ArticleCache_Set_def redis_Set_def
  getKey_def UUID_String_def called_def Printf_def Let_def
  ArticleStatusFlagged_def ArticleStatusAnalyzed_def ArticleStatusPending_def FlagTypeSpam_def

lemma AnalyzeArticle_upstream_ok:
  assumes "AnalyzeSentiment d (Content a) = Inr sentiment"
    and "ExtractEntities d (Content a) = Inr entities"
    and "DetectBias d (Content a) = Inr biasFlags"
    and "CheckFacts d a = Inr factFlags"
    and "GetSourceReputation d (Source a) = Inr sourceScore"
    and "apply_results a sentiment entities biasFlags factFlags sourceScore (clk w) = (a1, c1)"
  shows "AnalyzeArticle d a w =
           persist_and_publish d a1 (w\<lparr>trace := trace w @ upstream_calls, clk := c1\<rparr>)"
  using assms
  by (simp add: AnalyzeArticle_def called_def upstream_calls_def)

lemma AnalyzeArticle_upstream_error:
  assumes "upstream_fails d a"
  shows "\<exists>err cs. AnalyzeArticle d a w = (Returns (Some err), a, w\<lparr>trace := trace w @ cs\<rparr>)
           \<and> set cs \<subseteq> set upstream_calls"
  using assms
  unfolding upstream_fails_def AnalyzeArticle_def called_def upstream_calls_def Let_def
  by (auto split: sum.splits)

text \<open>
  Claim C9. If any of the five upstream calls of \<open>AnalyzeArticle\<close> (\<open>AnalyzeSentiment\<close>,
  \<open>ExtractEntities\<close>, \<open>DetectBias\<close>, \<open>CheckFacts\<close>, \<open>GetSourceReputation\<close>) returns an
  error, \<open>AnalyzeArticle\<close> returns an error and the article is unchanged: no metadata,
  flag, score or status has been written, the store and the cache are as they were, and
  no call other than to the analyzer and the checker has been made.
\<close>

theorem AnalyzeArticle_upstream_failure:
  assumes "upstream_fails d a"
  shows "(\<exists>err. fst (AnalyzeArticle d a w) = Returns (Some err))
         \<and> fst (snd (AnalyzeArticle d a w)) = a
         \<and> store (snd (snd (AnalyzeArticle d a w))) = store w
         \<and> cache (snd (snd (AnalyzeArticle d a w))) = cache w
         \<and> filter (\<lambda>c. \<not> is_analysis_call c) (trace (snd (snd (AnalyzeArticle d a w))))
             = filter (\<lambda>c. \<not> is_analysis_call c) (trace w)"
proof -
  from AnalyzeArticle_upstream_error [OF assms, of w]
  obtain err cs where r: "AnalyzeArticle d a w = (Returns (Some err), a, w\<lparr>trace := trace w @ cs\<rparr>)"
    and cs: "set cs \<subseteq> set upstream_calls" by blast
  from cs have "\<forall>c \<in> set cs. is_analysis_call c"
    by (auto simp: upstream_calls_def)
  then have "filter (\<lambda>c. \<not> is_analysis_call c) cs = []"
    by (simp add: filter_empty_conv)
  with r show ?thesis by simp
qed

theorem AnalyzeArticle_upstream_failure_witness:
  "upstream_fails unchecked_deps sample_article
   \<and> (\<exists>err. fst (AnalyzeArticle unchecked_deps sample_article sample_world) = Returns (Some err))
   \<and> fst (snd (AnalyzeArticle unchecked_deps sample_article sample_world)) = sample_article
   \<and> store (snd (snd (AnalyzeArticle unchecked_deps sample_article sample_world))) = store sample_world
   \<and> cache (snd (snd (AnalyzeArticle unchecked_deps sample_article sample_world))) = cache sample_world
   \<and> filter (\<lambda>c. \<not> is_analysis_call c)
        (trace (snd (snd (AnalyzeArticle unchecked_deps sample_article sample_world))))
       = filter (\<lambda>c. \<not> is_analysis_call c) (trace sample_world)"
proof -
  have h: "upstream_fails unchecked_deps sample_article"
    by (simp add: upstream_fails_def unchecked_deps_def mock_deps_def)
  from AnalyzeArticle_upstream_failure [OF h, of sample_world] h show ?thesis by simp
qed

lemma persist_update_error:
  assumes "ArticleRepository_Update d a w = (Some e, a2, w2)"
  shows "persist_and_publish d a w = (Returns (Some (Wrapped ''failed to update article'' e)), a2, w2)"
  using assms by (simp add: persist_and_publish_def)

lemma Set_Some_cases:
  obtains cerr w3 where "ArticleCache_Set d (Some a) w = (Returns cerr, w3)"
    and "trace w3 = trace w @ [CallCacheSet]" and "stdout w3 = stdout w" and "store w3 = store w"
  by (cases "json_Marshal d a"; cases "redis_fault d (Suc (length (trace w)))")
     (auto simp: ArticleCache_Set_def redis_Set_def called_def Let_def)

lemma persist_update_ok:
  assumes "ArticleRepository_Update d a w = (None, a2, w2)"
    and "ArticleCache_Set d (Some a2) w2 = (Returns cerr, w3)"
  shows "persist_and_publish d a w =
     (Returns None, a2,
      w3\<lparr>trace := trace w3 @ [CallPublishAnalyzed]
                      @ (if Status a2 = ArticleStatusFlagged then [CallPublishFlagged] else []),
         stdout := stdout w3
            @ (case cerr of Some err \<Rightarrow> [(''failed to update cache: %v'', err)] | None \<Rightarrow> [])
            @ (case PublishArticleAnalyzed d a2 of
                 Some err \<Rightarrow> [(''failed to publish article analyzed event: %v'', err)] | None \<Rightarrow> [])
            @ (if Status a2 = ArticleStatusFlagged
               then (case PublishArticleFlagged d a2 of
                       Some err \<Rightarrow> [(''failed to publish article flagged event: %v'', err)]
                     | None \<Rightarrow> [])
               else [])\<rparr>)"
  using assms
  by (simp add: persist_and_publish_def Let_def called_def Printf_def split: option.splits)

lemma Update_ok_world:
  assumes "ArticleRepository_Update d a w = (None, a2, w2)"
  shows "trace w2 = trace w @ [CallRepoUpdate] \<and> stdout w2 = stdout w
         \<and> store w2 (BinaryId (ID a2)) = Some a2
         \<and> a2 = a\<lparr>UpdatedAt := fst (time_Now (clk w))\<rparr>"
  using assms
  by (auto simp: ArticleRepository_Update_def UpdateOne_def called_def Let_def time_Now_def
      split: option.splits sum.splits if_splits prod.splits)

lemma apply_results_Score:
  assumes "apply_results a sentiment entities biasFlags factFlags sourceScore c = (a1, c1)"
  shows "Score a1 = calculateCredibilityScore sourceScore sentiment (int (length (Flags a1)))"
  using assms
  unfolding apply_results_def Let_def
  by (auto simp: UpdateScore_def UpdateStatus_def time_Now_def split: prod.splits if_splits)

lemma stdout_lines:
  assumes "l = l0 @ (case cerr of Some err \<Rightarrow> [(s1, err)] | None \<Rightarrow> [])
                 @ (case pa of Some err \<Rightarrow> [(s2, err)] | None \<Rightarrow> [])
                 @ (if fl then (case pf of Some err \<Rightarrow> [(s3, err)] | None \<Rightarrow> []) else [])"
  shows "(\<forall>e. cerr = Some e \<longrightarrow> (s1, e) \<in> set l)
         \<and> (\<forall>e. pa = Some e \<longrightarrow> (s2, e) \<in> set l)
         \<and> (\<forall>e. fl \<and> pf = Some e \<longrightarrow> (s3, e) \<in> set l)"
proof (cases fl)
  case True
  with assms have "l = l0 @ (case cerr of Some err \<Rightarrow> [(s1, err)] | None \<Rightarrow> [])
                 @ (case pa of Some err \<Rightarrow> [(s2, err)] | None \<Rightarrow> [])
                 @ (case pf of Some err \<Rightarrow> [(s3, err)] | None \<Rightarrow> [])"
    by (simp only: if_True)
  then show ?thesis by auto
next
  case False
  with assms have "l = l0 @ (case cerr of Some err \<Rightarrow> [(s1, err)] | None \<Rightarrow> [])
                 @ (case pa of Some err \<Rightarrow> [(s2, err)] | None \<Rightarrow> [])"
    by (simp only: if_False append_Nil2)
  with False show ?thesis by auto
qed

text \<open>
  Claim C3. In \<open>AnalyzeArticle\<close>, once the five upstream calls have succeeded: a
  failure of the repository's \<open>Update\<close> is returned as an error; after the repository
  write has succeeded, \<open>AnalyzeArticle\<close> returns nil, and a failure of the cache's
  \<open>Set\<close>, of \<open>PublishArticleAnalyzed\<close> or of \<open>PublishArticleFlagged\<close> is printed.
\<close>

theorem AnalyzeArticle_error_policy:
  assumes "AnalyzeSentiment d (Content a) = Inr sentiment"
    and "ExtractEntities d (Content a) = Inr entities"
    and "DetectBias d (Content a) = Inr biasFlags"
    and "CheckFacts d a = Inr factFlags"
    and "GetSourceReputation d (Source a) = Inr sourceScore"
    and "apply_results a sentiment entities biasFlags factFlags sourceScore (clk w) = (a1, c1)"
    and "ArticleRepository_Update d a1 (w\<lparr>trace := trace w @ upstream_calls, clk := c1\<rparr>) = (uerr, a2, w2)"
  shows "(case uerr of
            Some e \<Rightarrow> fst (AnalyzeArticle d a w) = Returns (Some (Wrapped ''failed to update article'' e))
          | None \<Rightarrow>
              fst (AnalyzeArticle d a w) = Returns None
              \<and> (\<forall>e. fst (ArticleCache_Set d (Some a2) w2) = Returns (Some e) \<longrightarrow>
                    (''failed to update cache: %v'', e) \<in> set (stdout (snd (snd (AnalyzeArticle d a w)))))
              \<and> (\<forall>e. PublishArticleAnalyzed d a2 = Some e \<longrightarrow>
                    (''failed to publish article analyzed event: %v'', e)
                      \<in> set (stdout (snd (snd (AnalyzeArticle d a w)))))
              \<and> (\<forall>e. Status a2 = ArticleStatusFlagged \<and> PublishArticleFlagged d a2 = Some e \<longrightarrow>
                    (''failed to publish article flagged event: %v'', e)
                      \<in> set (stdout (snd (snd (AnalyzeArticle d a w))))))"
proof (cases uerr)
  case (Some e)
  with assms(7) persist_update_error AnalyzeArticle_upstream_ok [OF assms(1-6)]
  show ?thesis by simp
next
  case None
  with assms(7) have u: "ArticleRepository_Update d a1
      (w\<lparr>trace := trace w @ upstream_calls, clk := c1\<rparr>) = (None, a2, w2)" by simp
  obtain cerr w3 where s: "ArticleCache_Set d (Some a2) w2 = (Returns cerr, w3)"
    by (rule Set_Some_cases)
  from persist_update_ok [OF u s] AnalyzeArticle_upstream_ok [OF assms(1-6)]
  have r: "fst (AnalyzeArticle d a w) = Returns None"
    and out: "stdout (snd (snd (AnalyzeArticle d a w))) = stdout w3
            @ (case cerr of Some err \<Rightarrow> [(''failed to update cache: %v'', err)] | None \<Rightarrow> [])
            @ (case PublishArticleAnalyzed d a2 of
                 Some err \<Rightarrow> [(''failed to publish article analyzed event: %v'', err)] | None \<Rightarrow> [])
            @ (if Status a2 = ArticleStatusFlagged
               then (case PublishArticleFlagged d a2 of
                       Some err \<Rightarrow> [(''failed to publish article flagged event: %v'', err)]
                     | None \<Rightarrow> [])
               else [])"
    by simp_all
  from s have c: "fst (ArticleCache_Set d (Some a2) w2) = Returns cerr" by simp
  from stdout_lines [OF out] r None show ?thesis
    unfolding c outcome.inject by (simp only: option.case)
qed

theorem AnalyzeArticle_error_policy_witness:
  "AnalyzeSentiment failing_deps (Content sample_article) = Inr (Fin 0.5)
   \<and> ExtractEntities failing_deps (Content sample_article) = Inr []
   \<and> DetectBias failing_deps (Content sample_article) = Inr [sample_flag]
   \<and> CheckFacts failing_deps sample_article = Inr []
   \<and> GetSourceReputation failing_deps (Source sample_article) = Inr (Fin 0.8)
   \<and> fst (AnalyzeArticle failing_deps sample_article sample_world) = Returns None
   \<and> (''failed to update cache: %v'', Failure ''connection refused'')
       \<in> set (stdout (snd (snd (AnalyzeArticle failing_deps sample_article sample_world))))
   \<and> (''failed to publish article analyzed event: %v'', Failure ''broker down'')
       \<in> set (stdout (snd (snd (AnalyzeArticle failing_deps sample_article sample_world))))
   \<and> (''failed to publish article flagged event: %v'', Failure ''broker down'')
       \<in> set (stdout (snd (snd (AnalyzeArticle failing_deps sample_article sample_world))))"
proof -
  let ?r = "AnalyzeArticle failing_deps sample_article sample_world"
  have up: "AnalyzeSentiment failing_deps (Content sample_article) = Inr (Fin 0.5)"
    "ExtractEntities failing_deps (Content sample_article) = Inr []"
    "DetectBias failing_deps (Content sample_article) = Inr [sample_flag]"
    "CheckFacts failing_deps sample_article = Inr []"
    "GetSourceReputation failing_deps (Source sample_article) = Inr (Fin 0.8)"
    by (simp_all add: failing_deps_def mock_deps_def)
  obtain a1 c1 where ap: "apply_results sample_article (Fin 0.5) [] [sample_flag] [] (Fin 0.8)
      (clk sample_world) = (a1, c1)"
    by (cases "apply_results sample_article (Fin 0.5) [] [sample_flag] [] (Fin 0.8)
      (clk sample_world)")
  obtain uerr a2 w2 where u: "ArticleRepository_Update failing_deps a1
      (sample_world\<lparr>trace := trace sample_world @ upstream_calls, clk := c1\<rparr>) = (uerr, a2, w2)"
    by (cases "ArticleRepository_Update failing_deps a1
      (sample_world\<lparr>trace := trace sample_world @ upstream_calls, clk := c1\<rparr>)")
  from ap have a1: "ID a1 = ''a1''" "Status a1 = ArticleStatusFlagged"
    by (auto simp: eval_defs)
  from u a1 have u2: "uerr = None" "Status a2 = ArticleStatusFlagged"
    by (auto simp: ArticleRepository_Update_def UpdateOne_def called_def Let_def time_Now_def
        failing_deps_def mock_deps_def sample_world_def split: prod.splits)
  have c: "fst (ArticleCache_Set failing_deps (Some a2) w2) = Returns (Some (Failure ''connection refused''))"
    by (simp add: ArticleCache_Set_def redis_Set_def failing_deps_def mock_deps_def Let_def)
  have p: "PublishArticleAnalyzed failing_deps a2 = Some (Failure ''broker down'')"
    "PublishArticleFlagged failing_deps a2 = Some (Failure ''broker down'')"
    by (simp_all add: failing_deps_def mock_deps_def)
  from AnalyzeArticle_error_policy [OF up ap u] u2 c p up show ?thesis
    by simp
qed

text \<open>
  Against claim C5 as stated (exactly four calls to the analyzer and checker
  interfaces): with the mocks of \<open>main\<close>, \<open>AnalyzeArticle\<close> makes five.
\<close>

theorem AnalyzeArticle_five_calls_counterexample:
  "length (filter is_analysis_call
     (trace (snd (snd (AnalyzeArticle mock_deps sample_article sample_world))))) = 5
   \<and> length (filter is_analysis_call
     (trace (snd (snd (AnalyzeArticle mock_deps sample_article sample_world))))) \<noteq> 4"
  by (simp add: eval_defs)

text \<open>
  Claim C5, amended. A run of \<open>AnalyzeArticle\<close> that returns nil after its upstream
  calls have succeeded makes exactly five sequential calls to the analyzer and checker
  interfaces (\<open>AnalyzeSentiment\<close>, \<open>ExtractEntities\<close>, \<open>DetectBias\<close>, \<open>CheckFacts\<close>,
  \<open>GetSourceReputation\<close>), then writes the article, which carries the credibility
  score computed from their results, through the repository, then through the cache,
  and then publishes; the stored document is the article returned.
\<close>

theorem AnalyzeArticle_call_order:
  assumes "AnalyzeSentiment d (Content a) = Inr sentiment"
    and "ExtractEntities d (Content a) = Inr entities"
    and "DetectBias d (Content a) = Inr biasFlags"
    and "CheckFacts d a = Inr factFlags"
    and "GetSourceReputation d (Source a) = Inr sourceScore"
    and "AnalyzeArticle d a w = (Returns None, a2, w')"
  shows "trace w' = trace w @
           [CallAnalyzeSentiment, CallExtractEntities, CallDetectBias, CallCheckFacts,
            CallGetSourceReputation, CallRepoUpdate, CallCacheSet, CallPublishAnalyzed]
           @ (if Status a2 = ArticleStatusFlagged then [CallPublishFlagged] else [])
         \<and> Score a2 = calculateCredibilityScore sourceScore sentiment (int (length (Flags a2)))
         \<and> store w' (BinaryId (ID a2)) = Some a2"
proof -
  obtain a1 c1 where ap:
    "apply_results a sentiment entities biasFlags factFlags sourceScore (clk w) = (a1, c1)"
    by (cases "apply_results a sentiment entities biasFlags factFlags sourceScore (clk w)")
  let ?w1 = "w\<lparr>trace := trace w @ upstream_calls, clk := c1\<rparr>"
  from AnalyzeArticle_upstream_ok [OF assms(1-5) ap] assms(6)
  have pp: "persist_and_publish d a1 ?w1 = (Returns None, a2, w')" by simp
  obtain uerr b w2 where u: "ArticleRepository_Update d a1 ?w1 = (uerr, b, w2)"
    by (cases "ArticleRepository_Update d a1 ?w1")
  have uerr: "uerr = None"
  proof (cases uerr)
    case (Some e)
    with u persist_update_error [of d a1 ?w1 e b w2] pp show ?thesis by simp
  qed simp
  with u have u': "ArticleRepository_Update d a1 ?w1 = (None, b, w2)" by simp
  obtain cerr w3 where s: "ArticleCache_Set d (Some b) w2 = (Returns cerr, w3)"
    and s3: "trace w3 = trace w2 @ [CallCacheSet]" "store w3 = store w2"
    by (rule Set_Some_cases)
  from persist_update_ok [OF u' s] pp have b: "b = a2" and w': "trace w' = trace w3 @ [CallPublishAnalyzed]
      @ (if Status a2 = ArticleStatusFlagged then [CallPublishFlagged] else [])"
      "store w' = store w3"
    by auto
  from Update_ok_world [OF u'] have w2: "trace w2 = trace ?w1 @ [CallRepoUpdate]"
    "store w2 (BinaryId (ID b)) = Some b" "b = a1\<lparr>UpdatedAt := fst (time_Now (clk ?w1))\<rparr>"
    by blast+
  from apply_results_Score [OF ap] w2(3) b
  have "Score a2 = calculateCredibilityScore sourceScore sentiment (int (length (Flags a2)))"
    by simp
  moreover from w' s3 w2 b have "store w' (BinaryId (ID a2)) = Some a2" by simp
  moreover from w' s3 w2 have "trace w' = trace w @
           [CallAnalyzeSentiment, CallExtractEntities, CallDetectBias, CallCheckFacts,
            CallGetSourceReputation, CallRepoUpdate, CallCacheSet, CallPublishAnalyzed]
           @ (if Status a2 = ArticleStatusFlagged then [CallPublishFlagged] else [])"
    by (simp add: upstream_calls_def)
  ultimately show ?thesis by simp
qed

theorem AnalyzeArticle_call_order_witness:
  "AnalyzeSentiment mock_deps (Content sample_article) = Inr (Fin 0.5)
   \<and> ExtractEntities mock_deps (Content sample_article) = Inr []
   \<and> DetectBias mock_deps (Content sample_article) = Inr []
   \<and> CheckFacts mock_deps sample_article = Inr []
   \<and> GetSourceReputation mock_deps (Source sample_article) = Inr (Fin 0.8)
   \<and> fst (AnalyzeArticle mock_deps sample_article sample_world) = Returns None
   \<and> trace (snd (snd (AnalyzeArticle mock_deps sample_article sample_world))) =
       [CallAnalyzeSentiment, CallExtractEntities, CallDetectBias, CallCheckFacts,
        CallGetSourceReputation, CallRepoUpdate, CallCacheSet, CallPublishAnalyzed]
   \<and> Score (fst (snd (AnalyzeArticle mock_deps sample_article sample_world)))
       = calculateCredibilityScore (Fin 0.8) (Fin 0.5) 0
   \<and> store (snd (snd (AnalyzeArticle mock_deps sample_article sample_world))) (BinaryId ''a1'')
       = Some (fst (snd (AnalyzeArticle mock_deps sample_article sample_world)))"
proof -
  let ?r = "AnalyzeArticle mock_deps sample_article sample_world"
  have up: "AnalyzeSentiment mock_deps (Content sample_article) = Inr (Fin 0.5)"
    "ExtractEntities mock_deps (Content sample_article) = Inr []"
    "DetectBias mock_deps (Content sample_article) = Inr []"
    "CheckFacts mock_deps sample_article = Inr []"
    "GetSourceReputation mock_deps (Source sample_article) = Inr (Fin 0.8)"
    by (simp_all add: mock_deps_def)
  have res: "fst ?r = Returns None"
    by (simp add: eval_defs)
  then have r: "?r = (Returns None, fst (snd ?r), snd (snd ?r))"
    by (metis prod.collapse)
  have a2: "Status (fst (snd ?r)) = ArticleStatusAnalyzed" "Flags (fst (snd ?r)) = []"
    "ID (fst (snd ?r)) = ''a1''" "trace sample_world = []"
    by (simp_all add: eval_defs)
  from AnalyzeArticle_call_order [OF up r] up res a2 show ?thesis
    by (simp add: ArticleStatusAnalyzed_def ArticleStatusFlagged_def)
qed

section \<open>Flags and the status FLAGGED\<close>








lemma docs_ok_clk_trace [simp]:
  "docs_ok (w\<lparr>clk := c\<rparr>) = docs_ok w"
  "docs_ok (w\<lparr>trace := t\<rparr>) = docs_ok w"
  "docs_ok (w\<lparr>stdout := l\<rparr>) = docs_ok w"
  "docs_ok (w\<lparr>cache := m\<rparr>) = docs_ok w"
  by (simp_all add: docs_ok_def)

lemma docs_ok_called [simp]: "docs_ok (called c w) = docs_ok w"
  by (simp add: called_def)

lemma docs_ok_Printf [simp]: "docs_ok (Printf f e w) = docs_ok w"
  by (simp add: Printf_def)














end
